theory Spec2Isabelle
  imports Complex_Main "HOL-Library.Word" "HOL-Library.Signed_Division" "HOL-Library.Sublist"
begin

section \<open>C++ scalars and text\<close>

text \<open>
  The sources compute on \<^verbatim>\<open>int\<close> (32 bits, two's complement) and \<^verbatim>\<open>long\<close>. Values are
  modelled as HOL integers. The only arithmetic the sources perform is in \<^verbatim>\<open>ROI::valid\<close>:
  the remainder operator, which truncates towards zero (\<open>smod\<close>), and one product
  \<^verbatim>\<open>width * height\<close>. C++ leaves the overflow of that product undefined; the model takes
  the 32-bit two's complement wrap-around, and \<open>c_rem_area_iff\<close> below shows that the test
  made on the product does not depend on it.
\<close>

definition int32_wrap :: "int \<Rightarrow> int" where
  "int32_wrap k = signed_take_bit 31 k"

definition c_rem :: "int \<Rightarrow> int \<Rightarrow> int" where
  "c_rem a b = a smod b"

text \<open>Decimal rendering, as \<^verbatim>\<open>std::ostream << int\<close> prints it.\<close>

fun string_of_nat :: "nat \<Rightarrow> string" where
  "string_of_nat n =
     (if n < 10 then [''0123456789'' ! n]
      else string_of_nat (n div 10) @ [''0123456789'' ! (n mod 10)])"

declare string_of_nat.simps [simp del]

definition string_of_int :: "int \<Rightarrow> string" where
  "string_of_int i =
     (if i < 0 then CHR ''-'' # string_of_nat (nat (- i)) else string_of_nat (nat i))"

section \<open>Enumerations\<close>

text \<open>
  The vendor header \<^verbatim>\<open>ASICamera2.h\<close> is not part of the repository. Its enumerations are
  modelled with the enumerators the sources name; the number behind each error code, which
  only the text of an exception shows, is a parameter of the model.
\<close>

datatype ASI_BOOL = ASI_FALSE | ASI_TRUE

datatype ASI_ERROR_CODE =
    ASI_SUCCESS
  | ASI_ERROR_INVALID_INDEX
  | ASI_ERROR_INVALID_ID
  | ASI_ERROR_INVALID_CONTROL_TYPE
  | ASI_ERROR_CAMERA_CLOSED
  | ASI_ERROR_CAMERA_REMOVED
  | ASI_ERROR_INVALID_PATH
  | ASI_ERROR_INVALID_FILEFORMAT
  | ASI_ERROR_INVALID_SIZE
  | ASI_ERROR_INVALID_IMGTYPE
  | ASI_ERROR_OUTOF_BOUNDARY
  | ASI_ERROR_TIMEOUT
  | ASI_ERROR_INVALID_SEQUENCE
  | ASI_ERROR_BUFFER_TOO_SMALL
  | ASI_ERROR_VIDEO_MODE_ACTIVE
  | ASI_ERROR_EXPOSURE_IN_PROGRESS
  | ASI_ERROR_GENERAL_ERROR

datatype ASI_EXPOSURE_STATUS = ASI_EXP_IDLE | ASI_EXP_WORKING | ASI_EXP_SUCCESS | ASI_EXP_FAILED

datatype ASI_IMG_TYPE = ASI_IMG_RAW8 | ASI_IMG_RGB24 | ASI_IMG_RAW16 | ASI_IMG_Y8 | ASI_IMG_END

datatype ASI_BAYER_PATTERN = ASI_BAYER_RG | ASI_BAYER_BG | ASI_BAYER_GR | ASI_BAYER_GB

datatype BayerPattern = None_pattern | RG | BG | GR | GB

datatype ImageType = raw8 | rgb24 | raw16 | y8

fun to_string :: "ImageType \<Rightarrow> string" where
  "to_string raw8 = ''raw8''"
| "to_string rgb24 = ''rgb24''"
| "to_string raw16 = ''raw16''"
| "to_string y8 = ''y8''"

fun get_native :: "ImageType \<Rightarrow> ASI_IMG_TYPE" where
  "get_native raw8 = ASI_IMG_RAW8"
| "get_native raw16 = ASI_IMG_RAW16"
| "get_native rgb24 = ASI_IMG_RGB24"
| "get_native y8 = ASI_IMG_Y8"

text \<open>\<^verbatim>\<open>get_bool\<close> of camera_info.cpp.\<close>

definition get_bool :: "ASI_BOOL \<Rightarrow> bool" where
  "get_bool v = (if v = ASI_TRUE then True else False)"

text \<open>The implicit conversion of an \<^verbatim>\<open>ASI_BOOL\<close> to \<^verbatim>\<open>bool\<close>: anything but zero is true.\<close>

definition bool_of_ASI_BOOL :: "ASI_BOOL \<Rightarrow> bool" where
  "bool_of_ASI_BOOL v = (v \<noteq> ASI_FALSE)"

section \<open>Exceptions\<close>

text \<open>
  Each exception class stores one string, \<^verbatim>\<open>error_message_\<close>, built by its constructor.
  A thrown exception is a value tagged with its class; \<^verbatim>\<open>std::runtime_error\<close> carries the
  text it was given.
\<close>

datatype exn =
    CameraException string
  | ControllableException string
  | ROIException string
  | runtime_error string

fun what :: "exn \<Rightarrow> string" where
  "what (CameraException m) = m"
| "what (ControllableException m) = m"
| "what (ROIException m) = m"
| "what (runtime_error m) = m"

definition UDEV_CHECK :: string where
  "UDEV_CHECK = ''cat /sys/module/usbcore/parameters/usbfs_memory_mb''"

text \<open>The four constructors of \<^verbatim>\<open>ROIException\<close>.\<close>

definition ROIException_modulo :: "int \<Rightarrow> int \<Rightarrow> bool \<Rightarrow> exn" where
  "ROIException_modulo v modulus width_flag =
     ROIException
       (if width_flag
        then ''ROI width%'' @ string_of_int modulus @ '' should be 0 (not the case for ''
               @ string_of_int v @ '')''
        else ''ROI height%'' @ string_of_int modulus @ '' should be 0 (not the case for ''
               @ string_of_int v @ '')'')"

definition ROIException_area :: "int \<Rightarrow> int \<Rightarrow> int \<Rightarrow> string \<Rightarrow> exn" where
  "ROIException_area w h modulus camera_description =
     ROIException
       (''for camera '' @ camera_description @ '', '' @ ''ROI width*height%''
          @ string_of_int modulus @ '' should be 0 (not the case for ''
          @ string_of_int w @ ''/'' @ string_of_int h @ '')'')"

definition ROIException_bin :: "int \<Rightarrow> exn" where
  "ROIException_bin bin = ROIException (''unsupported number of bin(s): '' @ string_of_int bin)"

definition ROIException_type :: "ImageType \<Rightarrow> exn" where
  "ROIException_type t = ROIException (''unsupported image type: '' @ to_string t)"

text \<open>The flag constructor and the range constructor of \<^verbatim>\<open>ControllableException\<close>.\<close>

definition ControllableException_flags :: "string \<Rightarrow> bool \<Rightarrow> bool \<Rightarrow> bool \<Rightarrow> exn" where
  "ControllableException_flags controllable no_such_control not_writable no_set_auto =
     ControllableException
       ((if no_such_control then ''no such controllable: '' @ controllable else [])
        @ (if not_writable
           then ''failed to change the value of '' @ controllable @ '': '' @ ''not writable''
           else [])
        @ (if no_set_auto
           then ''failed to change the value of '' @ controllable @ '': ''
                  @ ''to auto-mode (not supported)''
           else []))"

definition ControllableException_range :: "string \<Rightarrow> int \<Rightarrow> int \<Rightarrow> int \<Rightarrow> exn" where
  "ControllableException_range controllable v min_v max_v =
     ControllableException
       (''out of bound value for '' @ controllable @ '': '' @ string_of_int v
          @ ''is not in the range '' @ string_of_int min_v @ ''; '' @ string_of_int max_v)"

text \<open>
  The constructor of \<^verbatim>\<open>CameraException\<close>. \<open>code_number\<close> is the vendor's numbering of the error
  codes, and \<open>udev_created\<close> is what \<^verbatim>\<open>internal::create_udev_file()\<close> returns (it is called in
  the udev branch only). The text is assembled from the member \<^verbatim>\<open>error_message_\<close>, which
  is still the empty string when it is streamed, and not from the parameter
  \<^verbatim>\<open>error_message\<close>. A code outside the \<^verbatim>\<open>switch\<close> adds no name and no closing bracket.
\<close>

fun error_code_name :: "ASI_ERROR_CODE \<Rightarrow> string" where
  "error_code_name ASI_ERROR_INVALID_INDEX = ''ASI_ERROR_INVALID_INDEX'' @ '')''"
| "error_code_name ASI_ERROR_INVALID_ID = ''ASI_ERROR_ID'' @ '')''"
| "error_code_name ASI_ERROR_INVALID_CONTROL_TYPE = ''ASI_ERROR_INVALID_CONTROL_TYPE'' @ '')''"
| "error_code_name ASI_ERROR_CAMERA_CLOSED = ''ASI_ERROR_CAMERA_CLOSED'' @ '')''"
| "error_code_name ASI_ERROR_CAMERA_REMOVED = ''ASI_ERROR_CAMERA_REMOVED'' @ '')''"
| "error_code_name ASI_ERROR_INVALID_PATH = ''ASI_ERROR_INVALID_PATH'' @ '')''"
| "error_code_name ASI_ERROR_INVALID_FILEFORMAT = ''ASI_ERROR_INVALID_FILEFORMAT'' @ '')''"
| "error_code_name ASI_ERROR_INVALID_SIZE = ''ASI_ERROR_INVALID_SIZE'' @ '')''"
| "error_code_name ASI_ERROR_INVALID_IMGTYPE = ''ASI_ERROR_INVALID_IMGTYPE'' @ '')''"
| "error_code_name ASI_ERROR_OUTOF_BOUNDARY = ''ASI_ERROR_OUTOF_BOUNDARY'' @ '')''"
| "error_code_name ASI_ERROR_TIMEOUT = ''ASI_ERROR_TIMEOUT'' @ '')''"
| "error_code_name ASI_ERROR_INVALID_SEQUENCE = ''ASI_ERROR_INVALID_SEQUENCE'' @ '')''"
| "error_code_name ASI_ERROR_BUFFER_TOO_SMALL = ''ASI_ERROR_BUFFER_TOO_SMALL'' @ '')''"
| "error_code_name ASI_ERROR_VIDEO_MODE_ACTIVE = ''ASI_ERROR_VIDEO_MODE_ACTIVE'' @ '')''"
| "error_code_name ASI_ERROR_EXPOSURE_IN_PROGRESS = ''ASI_ERROR_EXPOSURE_IN_PROGRESS'' @ '')''"
| "error_code_name ASI_ERROR_GENERAL_ERROR = ''ASI_ERROR_GENERAL_ERROR'' @ '')''"
| "error_code_name ASI_SUCCESS = []"

definition CameraException_ctor ::
  "(ASI_ERROR_CODE \<Rightarrow> int) \<Rightarrow> bool \<Rightarrow> string \<Rightarrow> int \<Rightarrow> ASI_ERROR_CODE \<Rightarrow> bool \<Rightarrow> exn" where
  "CameraException_ctor code_number udev_created error_message camera_index error_code udev =
     (let error_message_member = [] in
      if udev
      then CameraException
             (''ASI Camera:'' @ [CHR 0x0A] @ ''the command '' @ [CHR 0x27] @ UDEV_CHECK
                @ [CHR 0x27] @ '' did not return the expected value of '' @ [CHR 0x27]
                @ ''200'' @ [CHR 0x27] @ '' ''
                @ ''which may indicate incorrect udev rules for the ASI camera.'' @ [CHR 0x0A]
                @ (if udev_created
                   then ''A file '' @ [CHR 0x27] @ ''99-asi.rules'' @ [CHR 0x27]
                          @ '' has been created in the current ''
                          @ ''directory, please run in a terminal:'' @ [CHR 0x0A]
                          @ ''  sudo install 99-asi.rules /lib/udev/rules.d'' @ [CHR 0x0A]
                          @ ''and reconnect the camera'' @ [CHR 0x0A]
                   else ''There has been a failed attempt to create a '' @ [CHR 0x27]
                          @ ''99-asi.rules ''
                          @ ''file in the current directory.'' @ [CHR 0x27] @ [CHR 0x0A]
                          @ ''See '' @ [CHR 0x27] @ ''install udev rule'' @ [CHR 0x27]
                          @ '' in:'' @ [CHR 0x0A]
                          @ ''https://astronomy-imaging-camera.com/manuals/''
                          @ ''ASI%20Cameras%20software%20Manual%20Linux%20OSX%20EN.pdf''))
      else CameraException
             (''ASI Camera: '' @ ''(camera index: '' @ string_of_int camera_index @ '') ''
                @ error_message_member @ '' '' @ ''(error code: ''
                @ string_of_int (code_number error_code) @ '': ''
                @ error_code_name error_code))"

section \<open>Controllables\<close>

text \<open>
  \<^verbatim>\<open>ASI_CONTROL_CAPS\<close> is the vendor's descriptor of one controllable; the record has the
  fields the sources read. \<^verbatim>\<open>Controllable\<close> is the class of controllable.hpp.
\<close>

type_synonym ASI_CONTROL_TYPE = int

record Controllable =
  name :: string
  min_value :: int
  max_value :: int
  default_value :: int
  "value" :: int
  is_writable :: bool
  is_auto :: bool
  supports_auto :: bool

section \<open>ROI and camera information\<close>

record ROI =
  start_x :: int
  start_y :: int
  width :: int
  height :: int
  bins :: int
  type :: ImageType

definition ROI_default :: ROI where
  "ROI_default =
     \<lparr>start_x = 0, start_y = 0, width = 0, height = 0, bins = 0, type = y8\<rparr>"

record CameraInfo =
  name :: string
  camera_id :: int
  max_height :: int
  max_width :: int
  is_color :: bool
  bayer :: BayerPattern
  supported_bins :: "int set"
  supported_image_types :: "ImageType set"
  pixel_size_um :: real
  mechanical_shutter :: bool
  st4_port :: bool
  has_cooler :: bool
  is_usb3_host :: bool
  is_usb3 :: bool
  elec_per_adu :: real
  bit_depth :: int
  is_trigger :: bool

text \<open>
  \<^verbatim>\<open>ROI::valid\<close>: five tests in a row, each throwing when it fails; returning normally is
  \<open>Inr ()\<close>.
\<close>

definition valid :: "ROI \<Rightarrow> CameraInfo \<Rightarrow> exn + unit" where
  "valid roi info =
     (if c_rem (width roi) 8 \<noteq> 0 then Inl (ROIException_modulo (width roi) 8 True)
      else if c_rem (height roi) 2 \<noteq> 0 then Inl (ROIException_modulo (height roi) 2 False)
      else if name info = ''ASI120'' \<and> \<not> is_usb3 info
              \<and> c_rem (int32_wrap (width roi * height roi)) 1024 \<noteq> 0
           then Inl (ROIException_area (width roi) (height roi) 1024 ''ASI120'')
      else if bins roi \<notin> supported_bins info then Inl (ROIException_bin (bins roi))
      else if type roi \<notin> supported_image_types info then Inl (ROIException_type (type roi))
      else Inr ())"

section \<open>The vendor driver\<close>

text \<open>
  The vendor structures, with the fields the sources read. \<^verbatim>\<open>SupportedBins\<close> and
  \<^verbatim>\<open>SupportedVideoFormat\<close> are arrays of 16 and 8 cells.
\<close>

record ASI_CAMERA_INFO =
  Name :: string
  CameraID :: int
  MaxHeight :: int
  MaxWidth :: int
  BayerPattern :: ASI_BAYER_PATTERN
  SupportedBins :: "int list"
  SupportedVideoFormat :: "ASI_IMG_TYPE list"
  PixelSize :: real
  MechanicalShutter :: ASI_BOOL
  ST4Port :: ASI_BOOL
  IsCoolerCam :: ASI_BOOL
  IsUSB3Host :: ASI_BOOL
  IsUSB3Camera :: ASI_BOOL
  ElecPerADU :: real
  BitDepth :: int
  IsTriggerCam :: ASI_BOOL

record ASI_CONTROL_CAPS =
  Name :: string
  MaxValue :: int
  MinValue :: int
  IsAutoSupported :: ASI_BOOL
  IsWritable :: ASI_BOOL
  ControlType :: ASI_CONTROL_TYPE

type_synonym byte = "8 word"

text \<open>
  The driver is outside the repository: it is a parameter of the model. Each entry point
  takes the state \<open>'d\<close> of the device and returns its answer (the error code and what it
  writes through its output pointers) with the next state. \<open>code_number\<close> is the number
  behind each error code.
\<close>

record 'd driver =
  code_number :: "ASI_ERROR_CODE \<Rightarrow> int"
  ASIGetNumOfConnectedCameras :: "'d \<Rightarrow> int \<times> 'd"
  ASIGetCameraProperty :: "int \<Rightarrow> 'd \<Rightarrow> (ASI_ERROR_CODE \<times> ASI_CAMERA_INFO) \<times> 'd"
  ASIGetControlValue ::
    "int \<Rightarrow> ASI_CONTROL_TYPE \<Rightarrow> 'd \<Rightarrow> (ASI_ERROR_CODE \<times> int \<times> ASI_BOOL) \<times> 'd"
  ASISetControlValue ::
    "int \<Rightarrow> ASI_CONTROL_TYPE \<Rightarrow> int \<Rightarrow> ASI_BOOL \<Rightarrow> 'd \<Rightarrow> ASI_ERROR_CODE \<times> 'd"
  ASISetROIFormat :: "int \<Rightarrow> int \<Rightarrow> int \<Rightarrow> int \<Rightarrow> ASI_IMG_TYPE \<Rightarrow> 'd \<Rightarrow> ASI_ERROR_CODE \<times> 'd"
  ASISetStartPos :: "int \<Rightarrow> int \<Rightarrow> int \<Rightarrow> 'd \<Rightarrow> ASI_ERROR_CODE \<times> 'd"
  ASIGetExpStatus :: "int \<Rightarrow> 'd \<Rightarrow> (ASI_ERROR_CODE \<times> ASI_EXPOSURE_STATUS) \<times> 'd"
  ASIStartExposure :: "int \<Rightarrow> ASI_BOOL \<Rightarrow> 'd \<Rightarrow> ASI_ERROR_CODE \<times> 'd"
  ASIGetDataAfterExp ::
    "int \<Rightarrow> byte list \<Rightarrow> int \<Rightarrow> 'd \<Rightarrow> (ASI_ERROR_CODE \<times> byte list) \<times> 'd"

text \<open>
  To state which driver calls an operation issues, the model keeps a log beside the device
  state: \<open>invoke\<close> runs one entry point and appends the call, with its arguments, to the
  log. The log is not part of the program.
\<close>

datatype driver_call =
    GetNumOfConnectedCameras_call
  | GetCameraProperty_call int
  | GetControlValue_call int ASI_CONTROL_TYPE
  | SetControlValue_call int ASI_CONTROL_TYPE int ASI_BOOL
  | SetROIFormat_call int int int int ASI_IMG_TYPE
  | SetStartPos_call int int int
  | GetExpStatus_call int
  | StartExposure_call int ASI_BOOL
  | GetDataAfterExp_call int "byte list" int

record 'd world =
  dev :: 'd
  calls :: "driver_call list"

definition invoke :: "driver_call \<Rightarrow> ('d \<Rightarrow> 'a \<times> 'd) \<Rightarrow> 'd world \<Rightarrow> 'a \<times> 'd world" where
  "invoke c f w = (case f (dev w) of (r, d') \<Rightarrow> (r, \<lparr>dev = d', calls = calls w @ [c]\<rparr>))"

text \<open>
  A \<^verbatim>\<open>CameraException\<close> thrown by the camera code: the default \<^verbatim>\<open>udev = false\<close>, so
  \<^verbatim>\<open>create_udev_file\<close> is not called.
\<close>

definition camera_error :: "'d driver \<Rightarrow> string \<Rightarrow> int \<Rightarrow> ASI_ERROR_CODE \<Rightarrow> exn" where
  "camera_error D error_message camera_index error_code =
     CameraException_ctor (code_number D) False error_message camera_index error_code False"

section \<open>Device discovery\<close>

fun insert_bins :: "int list \<Rightarrow> int set \<Rightarrow> int set" where
  "insert_bins [] s = s"
| "insert_bins (b # bs) s = (if b = 0 then s else insert_bins bs (insert b s))"

fun insert_formats :: "ASI_IMG_TYPE list \<Rightarrow> ImageType set \<Rightarrow> ImageType set" where
  "insert_formats [] s = s"
| "insert_formats (f # fs) s =
     (if f = ASI_IMG_END then s
      else insert_formats fs
             (case f of
                ASI_IMG_RAW8 \<Rightarrow> insert raw8 s
              | ASI_IMG_RAW16 \<Rightarrow> insert raw16 s
              | ASI_IMG_RGB24 \<Rightarrow> insert rgb24 s
              | ASI_IMG_Y8 \<Rightarrow> insert y8 s
              | ASI_IMG_END \<Rightarrow> s))"

fun bayer_of :: "ASI_BAYER_PATTERN \<Rightarrow> BayerPattern" where
  "bayer_of ASI_BAYER_RG = RG"
| "bayer_of ASI_BAYER_BG = BG"
| "bayer_of ASI_BAYER_GR = GR"
| "bayer_of ASI_BAYER_GB = GB"

text \<open>
  \<^verbatim>\<open>get_camera_info\<close>: \<^verbatim>\<open>get_nb_cameras()\<close> first, then one read of the properties. The two
  loops stop at the driver's terminator or at the end of the array.
\<close>

definition get_camera_info :: "'d driver \<Rightarrow> int \<Rightarrow> 'd world \<Rightarrow> (exn + CameraInfo) \<times> 'd world" where
  "get_camera_info D camera_index w =
     (case invoke GetNumOfConnectedCameras_call (ASIGetNumOfConnectedCameras D) w of
        (nb_cameras, w1) \<Rightarrow>
     (case invoke (GetCameraProperty_call camera_index)
             (ASIGetCameraProperty D camera_index) w1 of
        ((error, cam_info), w2) \<Rightarrow>
          if error \<noteq> ASI_SUCCESS
          then (Inl (camera_error D ''failed to read camera infos'' camera_index error), w2)
          else (Inr \<lparr>name = ASI_CAMERA_INFO.Name cam_info,
                      camera_id = CameraID cam_info,
                      max_height = MaxHeight cam_info,
                      max_width = MaxWidth cam_info,
                      is_color = get_bool (IsCoolerCam cam_info),
                      bayer = bayer_of (BayerPattern cam_info),
                      supported_bins = insert_bins (take 16 (SupportedBins cam_info)) {},
                      supported_image_types =
                        insert_formats (take 8 (SupportedVideoFormat cam_info)) {},
                      pixel_size_um = PixelSize cam_info,
                      mechanical_shutter = bool_of_ASI_BOOL (MechanicalShutter cam_info),
                      st4_port = get_bool (ST4Port cam_info),
                      has_cooler = get_bool (IsCoolerCam cam_info),
                      is_usb3_host = get_bool (IsUSB3Host cam_info),
                      is_usb3 = get_bool (IsUSB3Camera cam_info),
                      elec_per_adu = ElecPerADU cam_info,
                      bit_depth = BitDepth cam_info,
                      is_trigger = get_bool (IsTriggerCam cam_info)\<rparr>, w2)))"

section \<open>The camera\<close>

text \<open>
  The members of \<^verbatim>\<open>Camera\<close>: \<^verbatim>\<open>camera_info_\<close>, \<^verbatim>\<open>camera_index_\<close> and \<^verbatim>\<open>controls_\<close>, a
  \<^verbatim>\<open>std::map\<close> from the name of a controllable to its descriptor, here the list of its
  entries in the order of iteration. No operation below changes them.
\<close>

record Camera =
  camera_info_m :: CameraInfo
  camera_index_m :: int
  controls_m :: "(string \<times> ASI_CONTROL_CAPS) list"

definition get_control_caps :: "Camera \<Rightarrow> string \<Rightarrow> exn + ASI_CONTROL_CAPS" where
  "get_control_caps cam control =
     (case map_of (controls_m cam) control of
        None \<Rightarrow> Inl (ControllableException_flags control True False False)
      | Some caps \<Rightarrow> Inr caps)"

text \<open>
  \<^verbatim>\<open>get_controllable\<close> declares \<^verbatim>\<open>Controllable r;\<close> and assigns its fields one by one. The
  declaration leaves the scalar fields indeterminate: \<open>r0\<close> is that local as declared, and a
  field the function never assigns keeps the content of \<open>r0\<close>.
\<close>

definition get_controllable ::
  "'d driver \<Rightarrow> Camera \<Rightarrow> Controllable \<Rightarrow> ASI_CONTROL_CAPS \<Rightarrow> 'd world
     \<Rightarrow> (exn + Controllable) \<times> 'd world" where
  "get_controllable D cam r0 cap w =
     (let r = r0\<lparr>Controllable.name := ASI_CONTROL_CAPS.Name cap\<rparr> in
      case invoke (GetControlValue_call (camera_index_m cam) (ControlType cap))
             (ASIGetControlValue D (camera_index_m cam) (ControlType cap)) w of
        ((error, v, is_auto_out), w') \<Rightarrow>
          if error \<noteq> ASI_SUCCESS
          then (Inl (camera_error D
                       (''failed to read values for parameter '' @ Controllable.name r)
                       (camera_index_m cam) error), w')
          else (Inr (r\<lparr>value := v,
                        is_auto := (if is_auto_out = ASI_TRUE then True else False),
                        min_value := MinValue cap,
                        max_value := MaxValue cap,
                        supports_auto := bool_of_ASI_BOOL (IsAutoSupported cap),
                        is_writable := bool_of_ASI_BOOL (IsWritable cap)\<rparr>), w'))"

text \<open>
  \<^verbatim>\<open>get_controls\<close> walks \<^verbatim>\<open>controls_\<close> and stores one \<^verbatim>\<open>Controllable\<close> per name; \<open>r0 k\<close>
  is the declared local of the call made for the name \<open>k\<close>.
\<close>

fun get_controls_loop ::
  "'d driver \<Rightarrow> Camera \<Rightarrow> (string \<Rightarrow> Controllable) \<Rightarrow> (string \<times> ASI_CONTROL_CAPS) list
     \<Rightarrow> (string \<rightharpoonup> Controllable) \<Rightarrow> 'd world
     \<Rightarrow> (exn + (string \<rightharpoonup> Controllable)) \<times> 'd world" where
  "get_controls_loop D cam r0 [] controls w = (Inr controls, w)"
| "get_controls_loop D cam r0 ((k, caps) # rest) controls w =
     (case get_controllable D cam (r0 k) caps w of
        (Inl e, w') \<Rightarrow> (Inl e, w')
      | (Inr c, w') \<Rightarrow> get_controls_loop D cam r0 rest (controls(k \<mapsto> c)) w')"

definition get_controls ::
  "'d driver \<Rightarrow> Camera \<Rightarrow> (string \<Rightarrow> Controllable) \<Rightarrow> 'd world
     \<Rightarrow> (exn + (string \<rightharpoonup> Controllable)) \<times> 'd world" where
  "get_controls D cam r0 w = get_controls_loop D cam r0 (controls_m cam) Map.empty w"

definition set_control ::
  "'d driver \<Rightarrow> Camera \<Rightarrow> Controllable \<Rightarrow> string \<Rightarrow> int \<Rightarrow> 'd world \<Rightarrow> (exn + unit) \<times> 'd world" where
  "set_control D cam r0 control v w =
     (case get_control_caps cam control of
        Inl e \<Rightarrow> (Inl e, w)
      | Inr caps \<Rightarrow>
          (case get_controllable D cam r0 caps w of
             (Inl e, w1) \<Rightarrow> (Inl e, w1)
           | (Inr controllable, w1) \<Rightarrow>
               (case invoke (SetControlValue_call (camera_index_m cam) (ControlType caps) v
                               ASI_FALSE)
                       (ASISetControlValue D (camera_index_m cam) (ControlType caps) v
                          ASI_FALSE) w1 of
                  (error, w2) \<Rightarrow>
                    if error \<noteq> ASI_SUCCESS
                    then (Inl (camera_error D
                                 (''failed to set values for controllable: '' @ control)
                                 (camera_index_m cam) error), w2)
                    else (Inr (), w2))))"

definition set_auto ::
  "'d driver \<Rightarrow> Camera \<Rightarrow> Controllable \<Rightarrow> string \<Rightarrow> 'd world \<Rightarrow> (exn + unit) \<times> 'd world" where
  "set_auto D cam r0 control w =
     (case get_control_caps cam control of
        Inl e \<Rightarrow> (Inl e, w)
      | Inr caps \<Rightarrow>
          (case get_controllable D cam r0 caps w of
             (Inl e, w1) \<Rightarrow> (Inl e, w1)
           | (Inr controllable, w1) \<Rightarrow>
               if \<not> supports_auto controllable
               then (Inl (ControllableException_flags control False False True), w1)
               else
                 (case invoke (SetControlValue_call (camera_index_m cam) (ControlType caps)
                                 (value controllable) ASI_TRUE)
                         (ASISetControlValue D (camera_index_m cam) (ControlType caps)
                            (value controllable) ASI_TRUE) w1 of
                    (error, w2) \<Rightarrow>
                      if error \<noteq> ASI_SUCCESS
                      then (Inl (camera_error D
                                   (''failed to set auto-mode for controllable: '' @ control)
                                   (camera_index_m cam) error), w2)
                      else (Inr (), w2))))"

definition set_roi :: "'d driver \<Rightarrow> Camera \<Rightarrow> ROI \<Rightarrow> 'd world \<Rightarrow> (exn + unit) \<times> 'd world" where
  "set_roi D cam roi w =
     (case valid roi (camera_info_m cam) of
        Inl e \<Rightarrow> (Inl e, w)
      | Inr u \<Rightarrow>
          (case invoke (SetROIFormat_call (camera_index_m cam) (width roi) (height roi)
                          (bins roi) (get_native (type roi)))
                  (ASISetROIFormat D (camera_index_m cam) (width roi) (height roi)
                     (bins roi) (get_native (type roi))) w of
             (error, w1) \<Rightarrow>
               if error \<noteq> ASI_SUCCESS
               then (Inl (camera_error D ''failed to set the ROI'' (camera_index_m cam)
                            error), w1)
               else
                 (case invoke (SetStartPos_call (camera_index_m cam) (start_x roi)
                                 (start_y roi))
                         (ASISetStartPos D (camera_index_m cam) (start_x roi) (start_y roi))
                         w1 of
                    (error2, w2) \<Rightarrow>
                      if error2 \<noteq> ASI_SUCCESS
                      then (Inl (camera_error D ''failed to set the ROI starting position''
                                   (camera_index_m cam) error2), w2)
                      else (Inr (), w2))))"

section \<open>Exposure\<close>

definition get_exposition_status ::
  "'d driver \<Rightarrow> Camera \<Rightarrow> 'd world \<Rightarrow> (exn + ASI_EXPOSURE_STATUS) \<times> 'd world" where
  "get_exposition_status D cam w =
     (case invoke (GetExpStatus_call (camera_index_m cam))
             (ASIGetExpStatus D (camera_index_m cam)) w of
        ((error, status), w') \<Rightarrow>
          if error \<noteq> ASI_SUCCESS
          then (Inl (camera_error D ''failed to read the exposure status''
                       (camera_index_m cam) error), w')
          else (Inr status, w'))"

definition check_camera_ready :: "'d driver \<Rightarrow> Camera \<Rightarrow> 'd world \<Rightarrow> (exn + unit) \<times> 'd world" where
  "check_camera_ready D cam w =
     (case get_exposition_status D cam w of
        (Inl e, w') \<Rightarrow> (Inl e, w')
      | (Inr status, w') \<Rightarrow>
          if status \<noteq> ASI_EXP_IDLE
          then (Inl (runtime_error ''could not take a picture: camera busy''), w')
          else (Inr (), w'))"

text \<open>
  \<^verbatim>\<open>wait_for_status_change\<close> polls until the status differs from \<^verbatim>\<open>current_status\<close>; the
  source bounds neither the number of polls nor the time (the \<^verbatim>\<open>usleep\<close> between polls is
  not modelled). A loop that never ends has no result: \<open>None\<close>.
\<close>

partial_function (option) wait_loop ::
  "'d driver \<Rightarrow> Camera \<Rightarrow> ASI_EXPOSURE_STATUS \<Rightarrow> ASI_EXPOSURE_STATUS \<Rightarrow> 'd world
     \<Rightarrow> ((exn + ASI_EXPOSURE_STATUS) \<times> 'd world) option" where
  "wait_loop D cam current_status status w =
     (if status = current_status
      then (case get_exposition_status D cam w of
              (Inl e, w') \<Rightarrow> Some (Inl e, w')
            | (Inr status', w') \<Rightarrow> wait_loop D cam current_status status' w')
      else Some (Inr status, w))"

definition wait_for_status_change ::
  "'d driver \<Rightarrow> Camera \<Rightarrow> ASI_EXPOSURE_STATUS \<Rightarrow> 'd world
     \<Rightarrow> ((exn + ASI_EXPOSURE_STATUS) \<times> 'd world) option" where
  "wait_for_status_change D cam current_status w =
     (case get_exposition_status D cam w of
        (Inl e, w') \<Rightarrow> Some (Inl e, w')
      | (Inr status, w') \<Rightarrow> wait_loop D cam current_status status w')"

text \<open>
  \<^verbatim>\<open>capture\<close> returns the exception or normally, with the content of the caller's buffer
  and the state of the world afterwards.
\<close>

definition capture ::
  "'d driver \<Rightarrow> Camera \<Rightarrow> byte list \<Rightarrow> int \<Rightarrow> 'd world
     \<Rightarrow> ((exn + unit) \<times> byte list \<times> 'd world) option" where
  "capture D cam buffer image_size w =
     (case check_camera_ready D cam w of
        (Inl e, w1) \<Rightarrow> Some (Inl e, buffer, w1)
      | (Inr u, w1) \<Rightarrow>
          (case invoke (StartExposure_call (camera_index_m cam) ASI_FALSE)
                  (ASIStartExposure D (camera_index_m cam) ASI_FALSE) w1 of
             (error, w2) \<Rightarrow>
               if error \<noteq> ASI_SUCCESS
               then Some (Inl (camera_error D ''failed to start exposure''
                                 (camera_index_m cam) error), buffer, w2)
               else
                 (case wait_for_status_change D cam ASI_EXP_IDLE w2 of
                    None \<Rightarrow> None
                  | Some (Inl e, w3) \<Rightarrow> Some (Inl e, buffer, w3)
                  | Some (Inr left_idle, w3) \<Rightarrow>
                      (case wait_for_status_change D cam ASI_EXP_WORKING w3 of
                         None \<Rightarrow> None
                       | Some (Inl e, w4) \<Rightarrow> Some (Inl e, buffer, w4)
                       | Some (Inr new_status, w4) \<Rightarrow>
                           if new_status = ASI_EXP_FAILED
                           then Some (Inl (runtime_error ''failed to get exposure''), buffer,
                                      w4)
                           else
                             (case invoke (GetDataAfterExp_call (camera_index_m cam) buffer
                                             image_size)
                                     (ASIGetDataAfterExp D (camera_index_m cam) buffer
                                        image_size) w4 of
                                ((error2, buffer'), w5) \<Rightarrow>
                                  if error2 \<noteq> ASI_SUCCESS
                                  then Some (Inl (camera_error D
                                                    ''failed to read image after capture''
                                                    (camera_index_m cam) error2),
                                             buffer', w5)
                                  else Some (Inr (), buffer', w5))))))"

section \<open>Concrete inputs\<close>

text \<open>The catalog and the ROI printed in the README, and a controllable registry after it.\<close>

definition README_info :: CameraInfo where
  "README_info =
     \<lparr>name = ''ZWO ASI294MC Pro'', camera_id = 0, max_height = 2822, max_width = 4144,
      is_color = True, bayer = RG, supported_bins = {1, 2, 3, 4},
      supported_image_types = {raw8, rgb24, raw16, y8}, pixel_size_um = 463 / 100,
      mechanical_shutter = False, st4_port = False, has_cooler = True, is_usb3_host = True,
      is_usb3 = True, elec_per_adu = 399 / 1000, bit_depth = 14, is_trigger = False\<rparr>"

definition README_roi :: ROI where
  "README_roi =
     \<lparr>start_x = 0, start_y = 0, width = 4144, height = 2822, bins = 1, type = raw8\<rparr>"

definition ASI120MC_info :: CameraInfo where
  "ASI120MC_info =
     \<lparr>name = ''ASI120MC'', camera_id = 0, max_height = 960, max_width = 1280,
      is_color = True, bayer = GR, supported_bins = {1, 2},
      supported_image_types = {raw8, rgb24, raw16, y8}, pixel_size_um = 375 / 100,
      mechanical_shutter = False, st4_port = True, has_cooler = False, is_usb3_host = False,
      is_usb3 = False, elec_per_adu = 1, bit_depth = 12, is_trigger = False\<rparr>"

definition small_roi :: ROI where
  "small_roi = \<lparr>start_x = 0, start_y = 0, width = 8, height = 2, bins = 1, type = raw8\<rparr>"

text \<open>A ROI after the example of the README: rgb24, two bins, away from the origin.\<close>

definition example_roi :: ROI where
  "example_roi =
     \<lparr>start_x = 20, start_y = 40, width = 480, height = 340, bins = 2, type = rgb24\<rparr>"

definition Gain_caps :: ASI_CONTROL_CAPS where
  "Gain_caps =
     \<lparr>Name = ''Gain'', MaxValue = 570, MinValue = 0, IsAutoSupported = ASI_TRUE,
      IsWritable = ASI_TRUE, ControlType = 0\<rparr>"

definition Temperature_caps :: ASI_CONTROL_CAPS where
  "Temperature_caps =
     \<lparr>Name = ''Temperature'', MaxValue = 1000, MinValue = - 500, IsAutoSupported = ASI_FALSE,
      IsWritable = ASI_FALSE, ControlType = 8\<rparr>"

definition README_camera :: Camera where
  "README_camera =
     \<lparr>camera_info_m = README_info, camera_index_m = 0,
      controls_m = [(''Gain'', Gain_caps), (''Temperature'', Temperature_caps)]\<rparr>"

text \<open>A declared \<^verbatim>\<open>Controllable\<close> local whose scalar fields happen to hold \<open>g\<close>.\<close>

definition declared_local :: "int \<Rightarrow> Controllable" where
  "declared_local g =
     \<lparr>Controllable.name = [], min_value = g, max_value = g, default_value = g, value = g,
      is_writable = False, is_auto = False, supports_auto = False\<rparr>"

text \<open>
  A simulated device. It answers its next calls with the error codes of \<open>answers\<close> (with
  success once they are used up), reports the statuses of \<open>statuses\<close> poll after poll (idle
  once they are used up), holds one control value and delivers \<open>frame\<close>.
\<close>

record sim_dev =
  answers :: "ASI_ERROR_CODE list"
  statuses :: "ASI_EXPOSURE_STATUS list"
  control_now :: int
  frame :: "byte list"

definition sim_answer :: "sim_dev \<Rightarrow> ASI_ERROR_CODE \<times> sim_dev" where
  "sim_answer d = (case answers d of [] \<Rightarrow> (ASI_SUCCESS, d) | e # es \<Rightarrow> (e, d\<lparr>answers := es\<rparr>))"

definition sim_status :: "sim_dev \<Rightarrow> ASI_EXPOSURE_STATUS \<times> sim_dev" where
  "sim_status d =
     (case statuses d of [] \<Rightarrow> (ASI_EXP_IDLE, d) | s # ss \<Rightarrow> (s, d\<lparr>statuses := ss\<rparr>))"

fun sim_code_number :: "ASI_ERROR_CODE \<Rightarrow> int" where
  "sim_code_number ASI_SUCCESS = 0"
| "sim_code_number ASI_ERROR_INVALID_INDEX = 1"
| "sim_code_number ASI_ERROR_INVALID_ID = 2"
| "sim_code_number ASI_ERROR_INVALID_CONTROL_TYPE = 3"
| "sim_code_number ASI_ERROR_CAMERA_CLOSED = 4"
| "sim_code_number ASI_ERROR_CAMERA_REMOVED = 5"
| "sim_code_number ASI_ERROR_INVALID_PATH = 6"
| "sim_code_number ASI_ERROR_INVALID_FILEFORMAT = 7"
| "sim_code_number ASI_ERROR_INVALID_SIZE = 8"
| "sim_code_number ASI_ERROR_INVALID_IMGTYPE = 9"
| "sim_code_number ASI_ERROR_OUTOF_BOUNDARY = 10"
| "sim_code_number ASI_ERROR_TIMEOUT = 11"
| "sim_code_number ASI_ERROR_INVALID_SEQUENCE = 12"
| "sim_code_number ASI_ERROR_BUFFER_TOO_SMALL = 13"
| "sim_code_number ASI_ERROR_VIDEO_MODE_ACTIVE = 14"
| "sim_code_number ASI_ERROR_EXPOSURE_IN_PROGRESS = 15"
| "sim_code_number ASI_ERROR_GENERAL_ERROR = 16"

definition sim_camera_info :: ASI_CAMERA_INFO where
  "sim_camera_info =
     \<lparr>ASI_CAMERA_INFO.Name = ''ZWO ASI294MC Pro'', CameraID = 0, MaxHeight = 2822, MaxWidth = 4144,
      BayerPattern = ASI_BAYER_RG,
      SupportedBins = [1, 2, 3, 4, 0, 0, 0, 0, 0, 0, 0, 0, 0, 0, 0, 0],
      SupportedVideoFormat =
        [ASI_IMG_RAW8, ASI_IMG_RGB24, ASI_IMG_RAW16, ASI_IMG_Y8, ASI_IMG_END, ASI_IMG_END,
         ASI_IMG_END, ASI_IMG_END],
      PixelSize = 463 / 100, MechanicalShutter = ASI_FALSE, ST4Port = ASI_FALSE,
      IsCoolerCam = ASI_TRUE, IsUSB3Host = ASI_TRUE, IsUSB3Camera = ASI_TRUE,
      ElecPerADU = 399 / 1000, BitDepth = 14, IsTriggerCam = ASI_FALSE\<rparr>"

definition sim :: "sim_dev driver" where
  "sim =
     \<lparr>code_number = sim_code_number,
      ASIGetNumOfConnectedCameras = (\<lambda>d. (1, d)),
      ASIGetCameraProperty =
        (\<lambda>i d. case sim_answer d of (e, d') \<Rightarrow> ((e, sim_camera_info), d')),
      ASIGetControlValue =
        (\<lambda>i t d. case sim_answer d of (e, d') \<Rightarrow> ((e, control_now d', ASI_FALSE), d')),
      ASISetControlValue =
        (\<lambda>i t v a d. case sim_answer d of
                        (e, d') \<Rightarrow> (e, if e = ASI_SUCCESS then d'\<lparr>control_now := v\<rparr> else d')),
      ASISetROIFormat = (\<lambda>i w h b t d. sim_answer d),
      ASISetStartPos = (\<lambda>i x y d. sim_answer d),
      ASIGetExpStatus =
        (\<lambda>i d. case sim_answer d of
                  (e, d') \<Rightarrow> (case sim_status d' of (s, d'') \<Rightarrow> ((e, s), d''))),
      ASIStartExposure = (\<lambda>i a d. sim_answer d),
      ASIGetDataAfterExp =
        (\<lambda>i buf n d. case sim_answer d of
                        (e, d') \<Rightarrow>
                          ((e, if e = ASI_SUCCESS then take (nat n) (frame d') else buf), d'))\<rparr>"

definition sim_world :: "ASI_ERROR_CODE list \<Rightarrow> ASI_EXPOSURE_STATUS list \<Rightarrow> sim_dev world" where
  "sim_world es ss =
     \<lparr>dev = \<lparr>answers = es, statuses = ss, control_now = 200, frame = [1, 2, 3, 4]\<rparr>,
      calls = []\<rparr>"

definition sim_state :: "ASI_EXPOSURE_STATUS list \<Rightarrow> sim_dev" where
  "sim_state ss = \<lparr>answers = [], statuses = ss, control_now = 200, frame = [1, 2, 3, 4]\<rparr>"

section \<open>Facts about the scalars\<close>

lemma string_of_nat_numeral [simp]:
  "string_of_nat (numeral k) =
     (if (numeral k :: nat) < 10 then [''0123456789'' ! numeral k]
      else string_of_nat (numeral k div 10) @ [''0123456789'' ! (numeral k mod 10)])"
  by (rule string_of_nat.simps)

lemma string_of_nat_0 [simp]: "string_of_nat 0 = ''0''"
  by (simp add: string_of_nat.simps)

lemma string_of_nat_1 [simp]: "string_of_nat 1 = ''1''"
  by (simp add: string_of_nat.simps)

lemma string_of_nat_Suc_0 [simp]: "string_of_nat (Suc 0) = ''1''"
  by (simp add: string_of_nat.simps)

lemma c_rem_eq_0_iff: "c_rem k l = 0 \<longleftrightarrow> l dvd k"
proof -
  have "sgn k * (\<bar>k\<bar> mod \<bar>l\<bar>) = 0 \<longleftrightarrow> \<bar>k\<bar> mod \<bar>l\<bar> = 0"
    by (cases "k = 0") (simp_all add: sgn_if)
  also have "\<dots> \<longleftrightarrow> \<bar>l\<bar> dvd \<bar>k\<bar>"
    by (simp only: dvd_eq_mod_eq_0)
  also have "\<dots> \<longleftrightarrow> l dvd k"
    by simp
  finally show ?thesis
    by (simp only: c_rem_def smod_int_alt_def)
qed

lemma dvd_int32_wrap_iff: "(1024::int) dvd int32_wrap k \<longleftrightarrow> 1024 dvd k"
proof -
  define x where "x = int32_wrap k"
  have "take_bit 10 x = take_bit 10 k"
    unfolding x_def int32_wrap_def by (rule take_bit_signed_take_bit) simp
  then have "x mod 1024 = k mod 1024"
    by (simp add: take_bit_eq_mod)
  then have "1024 dvd x \<longleftrightarrow> 1024 dvd k"
    by (simp add: dvd_eq_mod_eq_0)
  then show ?thesis
    by (simp add: x_def)
qed

lemma c_rem_area_iff: "c_rem (int32_wrap (w * h)) 1024 = 0 \<longleftrightarrow> 1024 dvd w * h"
  unfolding c_rem_eq_0_iff dvd_int32_wrap_iff ..

section \<open>Facts about the exception texts and the simulated device\<close>

lemma area_reason_distinct:
  "ROIException_area w h m d \<noteq> ROIException_bin b"
  "ROIException_area w h m d \<noteq> ROIException_type t"
  by (simp_all add: ROIException_area_def ROIException_bin_def ROIException_type_def)

lemmas sim_simps =
  sim_def sim_world_def sim_state_def sim_answer_def sim_status_def README_camera_def

lemma README_camera_index: "camera_index_m README_camera = 0"
  by (simp add: README_camera_def)


lemma valid_README: "valid README_roi README_info = Inr ()"
  by (simp add: valid_def README_roi_def README_info_def c_rem_eq_0_iff)

lemma README_camera_info: "camera_info_m README_camera = README_info"
  by (simp add: README_camera_def)

lemma README_camera_lookup:
  "map_of (controls_m README_camera) ''Gain'' = Some Gain_caps"
  "map_of (controls_m README_camera) ''Temperature'' = Some Temperature_caps"
  by (simp_all add: README_camera_def)

lemma sim_discovery:
  "get_camera_info sim 0 (sim_world [] [])
     = (Inr README_info,
        \<lparr>dev = sim_state [],
         calls = [GetNumOfConnectedCameras_call, GetCameraProperty_call 0]\<rparr>)"
  by (simp add: get_camera_info_def invoke_def sim_simps sim_camera_info_def README_info_def
      get_bool_def bool_of_ASI_BOOL_def insert_commute)

lemma CameraException_ctor_ignores_message:
  "CameraException_ctor n c m1 i e u = CameraException_ctor n c m2 i e u"
  by (simp add: CameraException_ctor_def)

lemma set_control_ignores_IsWritable:
  assumes "map_of (controls_m cam) control = Some caps"
    and "map_of (controls_m cam') control = Some (caps\<lparr>IsWritable := b\<rparr>)"
    and "camera_index_m cam' = camera_index_m cam"
  shows "set_control D cam' r0 control v w = set_control D cam r0 control v w"
proof -
  obtain e x a d1 where
    "ASIGetControlValue D (camera_index_m cam) (ControlType caps) (dev w) = ((e, x, a), d1)"
    by (metis prod_cases3 surj_pair)
  moreover obtain e2 d2 where
    "ASISetControlValue D (camera_index_m cam) (ControlType caps) v ASI_FALSE d1 = (e2, d2)"
    by (metis surj_pair)
  ultimately show ?thesis using assms
    by (simp add: set_control_def get_control_caps_def get_controllable_def invoke_def Let_def)
qed

lemma get_controllable_fields:
  assumes "get_controllable D cam r0 cap w = (Inr c, w')"
  shows "Controllable.name c = ASI_CONTROL_CAPS.Name cap"
    and "min_value c = MinValue cap"
    and "max_value c = MaxValue cap"
    and "is_writable c = (IsWritable cap \<noteq> ASI_FALSE)"
    and "supports_auto c = (IsAutoSupported cap \<noteq> ASI_FALSE)"
    and "default_value c = default_value r0"
  using assms
  by (auto simp add: get_controllable_def invoke_def bool_of_ASI_BOOL_def Let_def
      split: prod.splits if_splits)

section \<open>Facts about polling\<close>



lemma get_exposition_status_calls:
  "get_exposition_status D cam w = (r, w') \<Longrightarrow>
     calls w' = calls w @ [GetExpStatus_call (camera_index_m cam)]"
  by (auto simp add: get_exposition_status_def invoke_def split: prod.splits if_splits)

lemma wait_loop_polls_aux:
  "wait_loop D cam current_status status w = Some y \<Longrightarrow>
     (\<exists>n. calls (snd y) = calls w @ replicate n (GetExpStatus_call (camera_index_m cam)))
     \<and> (\<forall>s. fst y = Inr s \<longrightarrow> s \<noteq> current_status)"
proof (induct D cam current_status status w y rule: wait_loop.raw_induct [rotated, consumes 1])
  case (1 loop D cam current_status status w y)
  show ?case
  proof (cases "status = current_status")
    case False
    with 1(2) have "y = (Inr status, w)" by simp
    with False show ?thesis by simp
  next
    case True
    obtain r1 w1 where g: "get_exposition_status D cam w = (r1, w1)"
      by (cases "get_exposition_status D cam w")
    have c1: "calls w1 = calls w @ [GetExpStatus_call (camera_index_m cam)]"
      using g by (rule get_exposition_status_calls)
    show ?thesis
    proof (cases r1)
      case (Inl e)
      with 1(2) True g have y: "y = (Inl e, w1)" by simp
      with c1 have
        "calls (snd y) = calls w @ replicate 1 (GetExpStatus_call (camera_index_m cam))"
        by simp
      with y show ?thesis by (metis fst_conv sum.distinct(1))
    next
      case (Inr status')
      with 1(2) True g have "loop D cam current_status status' w1 = Some y" by simp
      from 1(1) [OF this] obtain n where
        n: "calls (snd y) = calls w1 @ replicate n (GetExpStatus_call (camera_index_m cam))"
        and ne: "\<forall>s. fst y = Inr s \<longrightarrow> s \<noteq> current_status" by blast
      from n c1 have
        "calls (snd y) = calls w @ replicate (Suc n) (GetExpStatus_call (camera_index_m cam))"
        by (simp add: replicate_app_Cons_same)
      with ne show ?thesis by blast
    qed
  qed
qed

lemma wait_loop_polls:
  "wait_loop D cam current_status status w = Some (r, w') \<Longrightarrow>
     (\<exists>n. calls w' = calls w @ replicate n (GetExpStatus_call (camera_index_m cam)))
     \<and> (\<forall>s. r = Inr s \<longrightarrow> s \<noteq> current_status)"
  using wait_loop_polls_aux [of D cam current_status status w "(r, w')"] by simp

lemma wait_for_status_change_polls:
  assumes "wait_for_status_change D cam current_status w = Some (r, w')"
  shows "(\<exists>n. calls w' = calls w @ replicate (Suc n) (GetExpStatus_call (camera_index_m cam)))
     \<and> (\<forall>s. r = Inr s \<longrightarrow> s \<noteq> current_status)"
proof -
  obtain r1 w1 where g: "get_exposition_status D cam w = (r1, w1)"
    by (cases "get_exposition_status D cam w")
  have c1: "calls w1 = calls w @ [GetExpStatus_call (camera_index_m cam)]"
    using g by (rule get_exposition_status_calls)
  show ?thesis
  proof (cases r1)
    case (Inl e)
    with assms g have "r = Inl e" "w' = w1" by (simp_all add: wait_for_status_change_def)
    with c1 have "calls w' = calls w @ replicate (Suc 0) (GetExpStatus_call (camera_index_m cam))"
      by simp
    with \<open>r = Inl e\<close> show ?thesis by blast
  next
    case (Inr status)
    with assms g have "wait_loop D cam current_status status w1 = Some (r, w')"
      by (simp add: wait_for_status_change_def)
    from wait_loop_polls [OF this] obtain n where
      n: "calls w' = calls w1 @ replicate n (GetExpStatus_call (camera_index_m cam))"
      and ne: "\<forall>s. r = Inr s \<longrightarrow> s \<noteq> current_status" by blast
    from n c1 have
      "calls w' = calls w @ replicate (Suc n) (GetExpStatus_call (camera_index_m cam))"
      by (simp add: replicate_app_Cons_same)
    with ne show ?thesis by blast
  qed
qed

lemma check_camera_ready_calls:
  "check_camera_ready D cam w = (r, w') \<Longrightarrow>
     calls w' = calls w @ [GetExpStatus_call (camera_index_m cam)]"
  by (auto simp add: check_camera_ready_def split: prod.splits sum.splits if_splits
      dest: get_exposition_status_calls)

lemma capture_polls_first:
  assumes "capture D cam buffer image_size w = Some (r, b, w')"
  shows "\<exists>rest. calls w' = calls w @ GetExpStatus_call (camera_index_m cam) # rest"
proof -
  obtain r1 w1 where c: "check_camera_ready D cam w = (r1, w1)"
    by (cases "check_camera_ready D cam w")
  from check_camera_ready_calls [OF c]
  have c1: "calls w1 = calls w @ [GetExpStatus_call (camera_index_m cam)]" .
  obtain e2 d2 where s: "ASIStartExposure D (camera_index_m cam) ASI_FALSE (dev w1) = (e2, d2)"
    by (metis surj_pair)
  let ?w2 = "\<lparr>dev = d2,
              calls = calls w1 @ [StartExposure_call (camera_index_m cam) ASI_FALSE]\<rparr>"
  show ?thesis
  proof (cases r1)
    case (Inl e)
    with assms c have "w' = w1" by (simp add: capture_def)
    with c1 show ?thesis by simp
  next
    case (Inr u)
    show ?thesis
    proof (cases "e2 = ASI_SUCCESS")
      case False
      with assms c Inr s have "w' = ?w2" by (simp add: capture_def invoke_def)
      with c1 show ?thesis by simp
    next
      case True
      with assms c Inr s obtain r3 w3 where
        w3: "wait_for_status_change D cam ASI_EXP_IDLE ?w2 = Some (r3, w3)"
        by (auto simp add: capture_def invoke_def split: option.splits)
      from wait_for_status_change_polls [OF w3] obtain n where
        c3: "calls w3 = calls ?w2 @ replicate (Suc n) (GetExpStatus_call (camera_index_m cam))"
        by blast
      show ?thesis
      proof (cases r3)
        case (Inl e)
        with assms c Inr s True w3 have "w' = w3" by (simp add: capture_def invoke_def)
        with c3 c1 show ?thesis by simp
      next
        case left: (Inr st)
        with assms c Inr s True w3 obtain r4 w4 where
          w4: "wait_for_status_change D cam ASI_EXP_WORKING w3 = Some (r4, w4)"
          by (auto simp add: capture_def invoke_def split: option.splits)
        from wait_for_status_change_polls [OF w4] obtain m where
          c4: "calls w4 = calls w3 @ replicate (Suc m) (GetExpStatus_call (camera_index_m cam))"
          by blast
        from assms c Inr s True w3 left w4
        have "w' = w4 \<or> (\<exists>d5. w' = \<lparr>dev = d5, calls = calls w4 @
                 [GetDataAfterExp_call (camera_index_m cam) buffer image_size]\<rparr>)"
          by (auto simp add: capture_def invoke_def split: sum.splits if_splits prod.splits)
        with c4 c3 c1 show ?thesis by auto
      qed
    qed
  qed
qed

section \<open>The ROI validator\<close>

text \<open>
  C2. \<^verbatim>\<open>ROI::valid\<close> tests, in this order and stopping at the first failure: the width is a
  multiple of 8, the height is a multiple of 2, the area rule of the legacy camera, the
  number of bins is a supported one, the image type is a supported one. The tests are
  stated on the mathematical values (divisibility, and the product without wrap-around).
  In particular a width that is not a multiple of 8 is rejected with the width text,
  whatever the other fields and the catalog are.
\<close>

theorem valid_checks_in_order:
  "valid roi info =
     (if \<not> 8 dvd width roi then Inl (ROIException_modulo (width roi) 8 True)
      else if \<not> 2 dvd height roi then Inl (ROIException_modulo (height roi) 2 False)
      else if name info = ''ASI120'' \<and> \<not> is_usb3 info \<and> \<not> 1024 dvd width roi * height roi
           then Inl (ROIException_area (width roi) (height roi) 1024 ''ASI120'')
      else if bins roi \<notin> supported_bins info then Inl (ROIException_bin (bins roi))
      else if type roi \<notin> supported_image_types info
           then Inl (ROIException_type (type roi))
      else Inr ())
   \<and> (\<not> 8 dvd width roi \<longrightarrow> valid roi info = Inl (ROIException_modulo (width roi) 8 True))"
  by (simp add: valid_def c_rem_eq_0_iff dvd_int32_wrap_iff)

theorem valid_checks_in_order_witness:
  "\<not> 8 dvd width (README_roi\<lparr>width := 4145\<rparr>)
   \<and> valid (README_roi\<lparr>width := 4145\<rparr>) README_info
       = Inl (ROIException ''ROI width%8 should be 0 (not the case for 4145)'')"
  using valid_checks_in_order [of "README_roi\<lparr>width := 4145\<rparr>" README_info]
  by (simp add: README_roi_def ROIException_modulo_def string_of_int_def)

text \<open>
  C6, as stated, fails: a camera whose name begins with ASI120 without being equal to it is
  not held to the area rule. Here the name is ASI120MC, the camera is not USB3, the area is
  16, and the ROI is accepted.
\<close>

theorem legacy_prefix_counterexample:
  "prefix ''ASI120'' (name ASI120MC_info) \<and> \<not> is_usb3 ASI120MC_info
   \<and> \<not> 1024 dvd width small_roi * height small_roi
   \<and> valid small_roi ASI120MC_info = Inr ()"
  by (simp add: valid_def ASI120MC_info_def small_roi_def c_rem_eq_0_iff dvd_int32_wrap_iff)

text \<open>
  C6, amended. When the name of the camera is exactly ASI120 and the camera is not USB3, a
  ROI that passes the width and height tests is rejected with the area text exactly when
  its area is not a multiple of 1024. A camera of any other name, or a USB3 camera, is
  exempt: the validator is the four other tests.
\<close>

theorem legacy_area_check:
  "(name info = ''ASI120'' \<and> \<not> is_usb3 info \<and> 8 dvd width roi \<and> 2 dvd height roi \<longrightarrow>
      (valid roi info = Inl (ROIException_area (width roi) (height roi) 1024 ''ASI120''))
        = (\<not> 1024 dvd width roi * height roi))
   \<and> (name info \<noteq> ''ASI120'' \<or> is_usb3 info \<longrightarrow>
        valid roi info =
          (if \<not> 8 dvd width roi then Inl (ROIException_modulo (width roi) 8 True)
           else if \<not> 2 dvd height roi then Inl (ROIException_modulo (height roi) 2 False)
           else if bins roi \<notin> supported_bins info then Inl (ROIException_bin (bins roi))
           else if type roi \<notin> supported_image_types info
                then Inl (ROIException_type (type roi))
           else Inr ()))"
  by (auto simp add: valid_def c_rem_eq_0_iff dvd_int32_wrap_iff area_reason_distinct
      area_reason_distinct [symmetric])

theorem legacy_area_check_witness:
  "valid small_roi (ASI120MC_info\<lparr>name := ''ASI120''\<rparr>)
     = Inl (ROIException
         ''for camera ASI120, ROI width*height%1024 should be 0 (not the case for 8/2)'')
   \<and> valid small_roi ASI120MC_info = Inr ()"
  using legacy_area_check [of "ASI120MC_info\<lparr>name := ''ASI120''\<rparr>" small_roi]
    legacy_area_check [of ASI120MC_info small_roi]
  by (simp add: ASI120MC_info_def small_roi_def ROIException_area_def string_of_int_def)

section \<open>Setting the ROI\<close>

text \<open>
  C3. \<^verbatim>\<open>set_roi\<close> validates first. When the validator throws, the exception is passed on
  and the world is unchanged: no driver call. When it accepts, the format is sent: the
  width, the height, the bins and the vendor's code of the ROI's own image type (raw8 as
  RAW8, rgb24 as RGB24, raw16 as RAW16, y8 as Y8). If the driver rejects it, that is the
  only call; else the start position is sent, and its own rejection is reported on its own.
\<close>

theorem set_roi_validates_first:
  "(\<forall>e. valid roi (camera_info_m cam) = Inl e \<longrightarrow> set_roi D cam roi w = (Inl e, w))
   \<and> (valid roi (camera_info_m cam) = Inr () \<longrightarrow>
        (let encoding =
               (case type roi of
                  raw8 \<Rightarrow> ASI_IMG_RAW8
                | rgb24 \<Rightarrow> ASI_IMG_RGB24
                | raw16 \<Rightarrow> ASI_IMG_RAW16
                | y8 \<Rightarrow> ASI_IMG_Y8)
         in case ASISetROIFormat D (camera_index_m cam) (width roi) (height roi) (bins roi)
                   encoding (dev w) of
              (e1, d1) \<Rightarrow>
                (case ASISetStartPos D (camera_index_m cam) (start_x roi) (start_y roi) d1 of
                   (e2, d2) \<Rightarrow>
                     set_roi D cam roi w =
                       (if e1 \<noteq> ASI_SUCCESS
                        then (Inl (camera_error D ''failed to set the ROI''
                                     (camera_index_m cam) e1),
                              \<lparr>dev = d1,
                               calls = calls w @
                                 [SetROIFormat_call (camera_index_m cam) (width roi)
                                    (height roi) (bins roi) encoding]\<rparr>)
                        else
                          (if e2 \<noteq> ASI_SUCCESS
                           then Inl (camera_error D ''failed to set the ROI starting position''
                                       (camera_index_m cam) e2)
                           else Inr (),
                           \<lparr>dev = d2,
                            calls = calls w @
                              [SetROIFormat_call (camera_index_m cam) (width roi) (height roi)
                                 (bins roi) encoding,
                               SetStartPos_call (camera_index_m cam) (start_x roi)
                                 (start_y roi)]\<rparr>)))))"
proof (cases "type roi")
  case raw8
  then show ?thesis
    by (simp add: set_roi_def invoke_def Let_def split: prod.splits)
next
  case rgb24
  then show ?thesis
    by (simp add: set_roi_def invoke_def Let_def split: prod.splits)
next
  case raw16
  then show ?thesis
    by (simp add: set_roi_def invoke_def Let_def split: prod.splits)
next
  case y8
  then show ?thesis
    by (simp add: set_roi_def invoke_def Let_def split: prod.splits)
qed

text \<open>
  Three runs on the catalog of the README: a width of 4145 is refused without any call; the
  rgb24 ROI after the README's example (two bins, start at 20, 40) is sent as RGB24 and its
  start position, which the device rejects, is reported; a raw16 ROI is sent as RAW16 and
  the rejected format is the only call.
\<close>

theorem set_roi_validates_first_witness:
  "set_roi sim README_camera (README_roi\<lparr>width := 4145\<rparr>) (sim_world [] [])
     = (Inl (ROIException ''ROI width%8 should be 0 (not the case for 4145)''),
        sim_world [] [])
   \<and> set_roi sim README_camera example_roi
         (sim_world [ASI_SUCCESS, ASI_ERROR_OUTOF_BOUNDARY] [])
     = (Inl (CameraException
               ''ASI Camera: (camera index: 0)  (error code: 10: ASI_ERROR_OUTOF_BOUNDARY)''),
        \<lparr>dev = sim_state [],
         calls = [SetROIFormat_call 0 480 340 2 ASI_IMG_RGB24, SetStartPos_call 0 20 40]\<rparr>)
   \<and> set_roi sim README_camera (README_roi\<lparr>type := raw16\<rparr>)
         (sim_world [ASI_ERROR_INVALID_IMGTYPE] [])
     = (Inl (CameraException
               ''ASI Camera: (camera index: 0)  (error code: 9: ASI_ERROR_INVALID_IMGTYPE)''),
        \<lparr>dev = sim_state [],
         calls = [SetROIFormat_call 0 4144 2822 1 ASI_IMG_RAW16]\<rparr>)"
proof -
  have bad: "valid (README_roi\<lparr>width := 4145\<rparr>) (camera_info_m README_camera)
               = Inl (ROIException ''ROI width%8 should be 0 (not the case for 4145)'')"
    by (simp add: valid_def README_roi_def c_rem_eq_0_iff ROIException_modulo_def
        string_of_int_def)
  have good: "valid example_roi (camera_info_m README_camera) = Inr ()"
    by (simp add: README_camera_info valid_def example_roi_def README_info_def
        c_rem_eq_0_iff)
  have good16: "valid (README_roi\<lparr>type := raw16\<rparr>) (camera_info_m README_camera) = Inr ()"
    by (simp add: README_camera_info valid_def README_roi_def README_info_def
        c_rem_eq_0_iff)
  from set_roi_validates_first [of "README_roi\<lparr>width := 4145\<rparr>" README_camera sim
      "sim_world [] []"] bad
  have one: "set_roi sim README_camera (README_roi\<lparr>width := 4145\<rparr>) (sim_world [] [])
     = (Inl (ROIException ''ROI width%8 should be 0 (not the case for 4145)''),
        sim_world [] [])"
    by blast
  from set_roi_validates_first [of example_roi README_camera sim
      "sim_world [ASI_SUCCESS, ASI_ERROR_OUTOF_BOUNDARY] []"] good
  have two: "set_roi sim README_camera example_roi
         (sim_world [ASI_SUCCESS, ASI_ERROR_OUTOF_BOUNDARY] [])
     = (Inl (CameraException
               ''ASI Camera: (camera index: 0)  (error code: 10: ASI_ERROR_OUTOF_BOUNDARY)''),
        \<lparr>dev = sim_state [],
         calls = [SetROIFormat_call 0 480 340 2 ASI_IMG_RGB24, SetStartPos_call 0 20 40]\<rparr>)"
    by (simp add: sim_simps example_roi_def camera_error_def CameraException_ctor_def
        string_of_int_def)
  from set_roi_validates_first [of "README_roi\<lparr>type := raw16\<rparr>" README_camera sim
      "sim_world [ASI_ERROR_INVALID_IMGTYPE] []"] good16
  have three: "set_roi sim README_camera (README_roi\<lparr>type := raw16\<rparr>)
         (sim_world [ASI_ERROR_INVALID_IMGTYPE] [])
     = (Inl (CameraException
               ''ASI Camera: (camera index: 0)  (error code: 9: ASI_ERROR_INVALID_IMGTYPE)''),
        \<lparr>dev = sim_state [],
         calls = [SetROIFormat_call 0 4144 2822 1 ASI_IMG_RAW16]\<rparr>)"
    by (simp add: sim_simps README_roi_def camera_error_def CameraException_ctor_def
        string_of_int_def)
  from one two three show ?thesis by blast
qed

section \<open>Capture\<close>

text \<open>
  C4. Whatever \<^verbatim>\<open>capture\<close> returns, its first driver call is one poll of the status. When
  the driver reports a status other than idle, \<^verbatim>\<open>capture\<close> throws the busy error at once:
  that poll is the only driver call, the exposure is not started and nothing is waited for.
\<close>

theorem capture_busy:
  "(\<forall>r b w'. capture D cam buffer image_size w = Some (r, b, w') \<longrightarrow>
       (\<exists>rest. calls w' = calls w @ GetExpStatus_call (camera_index_m cam) # rest))
   \<and> (\<forall>status d'.
         ASIGetExpStatus D (camera_index_m cam) (dev w) = ((ASI_SUCCESS, status), d')
         \<and> status \<noteq> ASI_EXP_IDLE \<longrightarrow>
         capture D cam buffer image_size w =
           Some (Inl (runtime_error ''could not take a picture: camera busy''), buffer,
                 \<lparr>dev = d', calls = calls w @ [GetExpStatus_call (camera_index_m cam)]\<rparr>))"
proof (intro conjI allI impI)
  fix r b w'
  assume "capture D cam buffer image_size w = Some (r, b, w')"
  then show "\<exists>rest. calls w' = calls w @ GetExpStatus_call (camera_index_m cam) # rest"
    by (rule capture_polls_first)
next
  fix status d'
  assume "ASIGetExpStatus D (camera_index_m cam) (dev w) = ((ASI_SUCCESS, status), d')
    \<and> status \<noteq> ASI_EXP_IDLE"
  then show "capture D cam buffer image_size w =
           Some (Inl (runtime_error ''could not take a picture: camera busy''), buffer,
                 \<lparr>dev = d', calls = calls w @ [GetExpStatus_call (camera_index_m cam)]\<rparr>)"
    by (simp add: capture_def check_camera_ready_def get_exposition_status_def invoke_def)
qed

theorem capture_busy_witness:
  "capture sim README_camera [0, 0, 0, 0] 4 \<lparr>dev = sim_state [ASI_EXP_WORKING], calls = []\<rparr>
     = Some (Inl (runtime_error ''could not take a picture: camera busy''), [0, 0, 0, 0],
             \<lparr>dev = sim_state [], calls = [GetExpStatus_call 0]\<rparr>)"
proof -
  have poll: "ASIGetExpStatus sim (camera_index_m README_camera)
                (dev \<lparr>dev = sim_state [ASI_EXP_WORKING], calls = []\<rparr>)
              = ((ASI_SUCCESS, ASI_EXP_WORKING), sim_state [])"
    by (simp add: sim_simps)
  have busy: "ASI_EXP_WORKING \<noteq> ASI_EXP_IDLE" by simp
  from capture_busy [of sim README_camera "[0, 0, 0, 0]" 4
      "\<lparr>dev = sim_state [ASI_EXP_WORKING], calls = []\<rparr>"] poll busy
  have "capture sim README_camera [0, 0, 0, 0] 4
          \<lparr>dev = sim_state [ASI_EXP_WORKING], calls = []\<rparr>
        = Some (Inl (runtime_error ''could not take a picture: camera busy''), [0, 0, 0, 0],
                \<lparr>dev = sim_state [],
                 calls = calls \<lparr>dev = sim_state [ASI_EXP_WORKING], calls = []\<rparr>
                           @ [GetExpStatus_call (camera_index_m README_camera)]\<rparr>)"
    by blast
  then show ?thesis by (simp add: README_camera_index)
qed



section \<open>Controllables: auto mode\<close>

text \<open>
  C7, as stated, fails: for Temperature, whose descriptor does not support auto mode,
  \<^verbatim>\<open>set_auto\<close> throws the auto-mode exception after one driver call, the read of the current
  value; and when the driver rejects that read, the exception is the read's.
\<close>

theorem set_auto_unsupported_counterexample:
  "map_of (controls_m README_camera) ''Temperature'' = Some Temperature_caps
   \<and> IsAutoSupported Temperature_caps = ASI_FALSE
   \<and> set_auto sim README_camera (declared_local 0) ''Temperature'' (sim_world [] [])
       = (Inl (ControllableException
                 ''failed to change the value of Temperature: to auto-mode (not supported)''),
          \<lparr>dev = sim_state [], calls = [GetControlValue_call 0 8]\<rparr>)
   \<and> set_auto sim README_camera (declared_local 0) ''Temperature''
         (sim_world [ASI_ERROR_CAMERA_CLOSED] [])
       = (Inl (CameraException
                 ''ASI Camera: (camera index: 0)  (error code: 4: ASI_ERROR_CAMERA_CLOSED)''),
          \<lparr>dev = sim_state [], calls = [GetControlValue_call 0 8]\<rparr>)"
  by (simp add: set_auto_def get_control_caps_def get_controllable_def invoke_def sim_simps
      Temperature_caps_def declared_local_def bool_of_ASI_BOOL_def
      ControllableException_flags_def camera_error_def CameraException_ctor_def
      string_of_int_def)

text \<open>
  C7, amended. For a name of the registry, \<^verbatim>\<open>set_auto\<close> first reads the current value from
  the driver. If that read is rejected, it throws the read's \<^verbatim>\<open>CameraException\<close>. Else, if
  the descriptor does not support auto mode, it throws the auto-mode exception: the read
  is the only driver call and nothing is written. Else it writes the value just read back
  with the auto flag set.
\<close>

theorem set_auto_reads_then_checks:
  assumes "map_of (controls_m cam) control = Some caps"
    and "ASIGetControlValue D (camera_index_m cam) (ControlType caps) (dev w) = ((e, v, a), d1)"
    and "ASISetControlValue D (camera_index_m cam) (ControlType caps) v ASI_TRUE d1 = (e2, d2)"
  shows "set_auto D cam r0 control w =
           (if e \<noteq> ASI_SUCCESS
            then (Inl (camera_error D
                         (''failed to read values for parameter '' @ ASI_CONTROL_CAPS.Name caps)
                         (camera_index_m cam) e),
                  \<lparr>dev = d1,
                   calls = calls w @
                     [GetControlValue_call (camera_index_m cam) (ControlType caps)]\<rparr>)
            else if IsAutoSupported caps = ASI_FALSE
            then (Inl (ControllableException_flags control False False True),
                  \<lparr>dev = d1,
                   calls = calls w @
                     [GetControlValue_call (camera_index_m cam) (ControlType caps)]\<rparr>)
            else (if e2 \<noteq> ASI_SUCCESS
                  then Inl (camera_error D
                              (''failed to set auto-mode for controllable: '' @ control)
                              (camera_index_m cam) e2)
                  else Inr (),
                  \<lparr>dev = d2,
                   calls = calls w @
                     [GetControlValue_call (camera_index_m cam) (ControlType caps),
                      SetControlValue_call (camera_index_m cam) (ControlType caps) v
                        ASI_TRUE]\<rparr>))"
  using assms
  by (simp add: set_auto_def get_control_caps_def get_controllable_def invoke_def
      bool_of_ASI_BOOL_def)

theorem set_auto_reads_then_checks_witness:
  "set_auto sim README_camera (declared_local 0) ''Gain'' (sim_world [] [])
     = (Inr (),
        \<lparr>dev = sim_state [],
         calls = [GetControlValue_call 0 0, SetControlValue_call 0 0 200 ASI_TRUE]\<rparr>)"
proof -
  have rd: "ASIGetControlValue sim (camera_index_m README_camera) (ControlType Gain_caps)
              (dev (sim_world [] [])) = ((ASI_SUCCESS, 200, ASI_FALSE), sim_state [])"
    by (simp add: sim_simps)
  have wr: "ASISetControlValue sim (camera_index_m README_camera) (ControlType Gain_caps) 200
              ASI_TRUE (sim_state []) = (ASI_SUCCESS, sim_state [])"
    by (simp add: sim_simps)
  from set_auto_reads_then_checks [OF README_camera_lookup(1) rd wr, of "declared_local 0"]
  show ?thesis
    by (simp add: README_camera_index Gain_caps_def sim_world_def)
qed

section \<open>Controllables: writing and reading back\<close>

text \<open>
  C1 at a concrete input. Temperature is in the registry and its descriptor marks it not
  writable. \<^verbatim>\<open>set_control\<close> reads its current value from the driver, writes the new value
  and returns normally: no exception for a read-only controllable is thrown.
\<close>

theorem set_control_writes_read_only:
  "map_of (controls_m README_camera) ''Temperature'' = Some Temperature_caps
   \<and> IsWritable Temperature_caps = ASI_FALSE
   \<and> set_control sim README_camera (declared_local 0) ''Temperature'' 5 (sim_world [] [])
       = (Inr (),
          \<lparr>dev = \<lparr>answers = [], statuses = [], control_now = 5, frame = [1, 2, 3, 4]\<rparr>,
           calls = [GetControlValue_call 0 8, SetControlValue_call 0 8 5 ASI_FALSE]\<rparr>)"
  by (simp add: set_control_def get_control_caps_def get_controllable_def invoke_def sim_simps
      Temperature_caps_def)

text \<open>
  C8 at a concrete input. \<^verbatim>\<open>get_controllable\<close> never assigns \<^verbatim>\<open>default_value\<close>: the field
  keeps what the declared local held. Built once from a local holding 7 and read back by
  \<^verbatim>\<open>get_controls\<close> from a local holding 9, the same descriptor of Gain on the same device
  shows two default values, while the value read back is the device's 200.
\<close>

theorem default_value_never_assigned:
  "map_sum id default_value
     (fst (get_controllable sim README_camera (declared_local 7) Gain_caps (sim_world [] [])))
     = Inr 7
   \<and> map_sum id (\<lambda>m. map_option default_value (m ''Gain''))
       (fst (get_controls sim README_camera (\<lambda>k. declared_local 9) (sim_world [] [])))
     = Inr (Some 9)
   \<and> map_sum id (\<lambda>m. map_option value (m ''Gain''))
       (fst (get_controls sim README_camera (\<lambda>k. declared_local 9) (sim_world [] [])))
     = Inr (Some 200)"
  by (simp add: get_controls_def get_controllable_def invoke_def sim_simps declared_local_def
      Gain_caps_def Temperature_caps_def)

section \<open>The text of a camera exception\<close>

text \<open>
  C9 at a concrete input. The constructor of \<^verbatim>\<open>CameraException\<close> is given the message
  of the failed operation, and the text it builds has the camera index and the error code
  but not the message; so has the exception that \<^verbatim>\<open>set_roi\<close> throws when the driver rejects
  the format.
\<close>

theorem CameraException_drops_message:
  "CameraException_ctor sim_code_number False ''failed to set the ROI'' 0
     ASI_ERROR_GENERAL_ERROR False
     = CameraException
         ''ASI Camera: (camera index: 0)  (error code: 16: ASI_ERROR_GENERAL_ERROR)''
   \<and> fst (set_roi sim README_camera README_roi (sim_world [ASI_ERROR_GENERAL_ERROR] []))
     = Inl (CameraException
              ''ASI Camera: (camera index: 0)  (error code: 16: ASI_ERROR_GENERAL_ERROR)'')"
  by (simp add: set_roi_def README_camera_info valid_README invoke_def sim_simps
      camera_error_def CameraException_ctor_def string_of_int_def)

section \<open>Discovery\<close>

text \<open>
  C10. In every catalog that \<^verbatim>\<open>get_camera_info\<close> returns, the colour flag equals the cooler
  flag: both are \<^verbatim>\<open>get_bool\<close> of the \<^verbatim>\<open>IsCoolerCam\<close> that the driver reported.
\<close>

theorem color_flag_is_cooler_flag:
  assumes "get_camera_info D camera_index w = (Inr info, w')"
  shows "is_color info = has_cooler info
     \<and> has_cooler info =
         (IsCoolerCam (snd (fst (ASIGetCameraProperty D camera_index
                                   (snd (ASIGetNumOfConnectedCameras D (dev w))))))
            = ASI_TRUE)"
  using assms
  by (auto simp add: get_camera_info_def invoke_def get_bool_def split: prod.splits if_splits)

theorem color_flag_is_cooler_flag_witness:
  "get_camera_info sim 0 (sim_world [] [])
     = (Inr README_info,
        \<lparr>dev = sim_state [],
         calls = [GetNumOfConnectedCameras_call, GetCameraProperty_call 0]\<rparr>)
   \<and> is_color README_info = has_cooler README_info"
  using color_flag_is_cooler_flag [OF sim_discovery] sim_discovery by simp

end
